theory Spec2Isabelle
  imports Main "HOL-Library.Char_ord" "HOL-Library.List_Lexorder"
begin

section \<open>Values of the watched object\<close>

text \<open>
  The watched state is an arbitrary JavaScript value. The model has the values a state
  can hold that the synchronisation code looks at: \<open>undefined\<close>, \<open>null\<close>, booleans,
  numbers (the integers and \<open>NaN\<close>), strings, \<open>Date\<close> objects (their time value in
  milliseconds), arrays and plain objects (own enumerable properties in insertion order).

  Objects are modelled by their contents. Where the source compares two objects by
  reference (\<open>===\<close>), the two are a snapshot made by a deep clone and the live state, or a
  value built on the spot; these never are the same object, so reference equality of two
  objects is \<open>False\<close> in the model.
\<close>

datatype json =
    JUndefined
  | JNull
  | JBool bool
  | JNumber int
  | JNaN
  | JString string
  | JDate int
  | JArray "json list"
  | JObject "(string \<times> json) list"

text \<open>Exceptions are values: what a \<open>throw\<close> of the source or of a callback carries.\<close>

datatype exn =
    TypeError
  | TestOperationFailed
  | Error string

section \<open>Operations and patches\<close>

datatype OpKind = Add | Remove | Replace | Move | Copy | Test

text \<open>
  An operation \<open>{op, path, value?, from?}\<close>; the field names carry a prefix because
  \<open>value\<close> and \<open>from\<close> are reserved words of the theory language.
\<close>

record Operation =
  op_kind :: OpKind
  op_path :: string
  op_value :: "json option"
  op_from :: "string option"

text \<open>
  A patch. \<open>timestamp\<close> and \<open>version\<close> are JavaScript numbers holding integers
  (\<open>Date.now()\<close> and a counter); \<open>metadata\<close> is an optional plain object
  (\<open>JUndefined\<close> when absent). The field \<open>id\<close> is \<open>patch_id\<close> here.
\<close>

record Patch =
  patch_id :: string
  timestamp :: int
  source :: string
  target :: string
  operations :: "Operation list"
  version :: int
  metadata :: json

text \<open>
  A conflict resolver \<open>(local, incoming, instance) => Patch\<close>, which may throw. The
  instance argument is the watcher that owns the configuration; a resolver of the model
  is already applied to it.
\<close>

type_synonym ConflictResolver = "Patch \<Rightarrow> Patch \<Rightarrow> exn + Patch"

subsection \<open>Plugins\<close>

text \<open>
  A plugin is an object with optional hooks. A hook is called with the data (a patch, or
  \<open>null\<close> once an earlier hook returned \<open>null\<close>) and the instance; it returns nothing
  (\<open>undefined\<close>), returns a patch or \<open>null\<close>, or throws. What a plugin keeps between
  calls is its \<open>pluginState\<close>, of a type \<open>'ps\<close> left open, which every hook may
  change.
\<close>

datatype HookResult = ReturnsUndefined | Returns "Patch option" | Throws exn

datatype HookName = OnSend | OnReceive | OnApply

type_synonym 'ps Hook = "Patch option \<Rightarrow> 'ps \<Rightarrow> HookResult \<times> 'ps"

record 'ps Plugin =
  plugin_id :: string
  pluginState :: 'ps
  onInit :: "('ps \<Rightarrow> exn option \<times> 'ps) option"
  onSend :: "'ps Hook option"
  onReceive :: "'ps Hook option"
  onApply :: "'ps Hook option"
  onDestroy :: "('ps \<Rightarrow> exn option \<times> 'ps) option"

subsection \<open>Object literals with spread\<close>

text \<open>Writing a property: an existing key keeps its place, a new key goes last.\<close>

fun setField :: "string \<Rightarrow> json \<Rightarrow> (string \<times> json) list \<Rightarrow> (string \<times> json) list" where
  "setField k v [] = [(k, v)]"
| "setField k v ((k', v') # fs) =
     (if k = k' then (k, v) # fs else (k', v') # setField k v fs)"

text \<open>Decimal rendering of an array index, as \<open>String(i)\<close> gives it.\<close>

definition digitChar :: "nat \<Rightarrow> char" where
  "digitChar d = char_of (48 + d)"

fun showNat :: "nat \<Rightarrow> string" where
  "showNat n = (if n < 10 then [digitChar n] else showNat (n div 10) @ [digitChar (n mod 10)])"

declare showNat.simps [simp del]

text \<open>
  The own enumerable properties of a value, in the order \<open>Object.keys\<close> lists them:
  the fields of an object, the elements of an array and the characters of a string under
  their indices. A \<open>Date\<close> and the other primitives have none. An object of the model
  has each key once.
\<close>

fun ownProps :: "json \<Rightarrow> (string \<times> json) list" where
  "ownProps (JObject fs) = fs"
| "ownProps (JArray xs) = zip (map showNat [0..<length xs]) xs"
| "ownProps (JString s) = zip (map showNat [0..<length s]) (map (\<lambda>c. JString [c]) s)"
| "ownProps _ = []"

text \<open>\<open>Object.keys(v)\<close>.\<close>

definition ownKeys :: "json \<Rightarrow> string list" where
  "ownKeys v = map fst (ownProps v)"



section \<open>Conflict engine (\<open>core/conflict.ts\<close>)\<close>

text \<open>
  The configuration of an instance (\<open>id\<close> is \<open>config_id\<close>, \<open>plugins\<close> is
  \<open>config_plugins\<close>); an option left out is
  \<open>None\<close>.
\<close>

record 'ps StateMirrorConfig =
  config_id :: string
  strategy :: "string option"
  debounce :: "int option"
  throttle :: "int option"
  paths :: "string list option"
  conflictResolver :: "ConflictResolver option"
  config_plugins :: "'ps Plugin list option"
  enableDevTools :: "bool option"

definition lastWriteWinsResolver :: "Patch \<Rightarrow> Patch \<Rightarrow> Patch" where
  "lastWriteWinsResolver local incoming =
     (if timestamp local \<ge> timestamp incoming then local else incoming)"

text \<open>
  \<open>resolveConflict(local, incoming, instance, customResolver?)\<close>: the resolver is the
  first one present of the argument, the configured one and the default; when it throws,
  the engine falls back to last-write-wins. Of the instance the function reads
  \<open>instance.config\<close> only, which is the argument \<open>config\<close> here.
\<close>

definition resolveConflict ::
  "Patch \<Rightarrow> Patch \<Rightarrow> 'ps StateMirrorConfig \<Rightarrow> ConflictResolver option \<Rightarrow> Patch" where
  "resolveConflict local incoming config customResolver =
     (let resolver =
        (case customResolver of
           Some r \<Rightarrow> r
         | None \<Rightarrow>
            (case conflictResolver config of
               Some r \<Rightarrow> r
             | None \<Rightarrow> (\<lambda>l i. Inr (lastWriteWinsResolver l i))))
      in case resolver local incoming of
           Inr p \<Rightarrow> p
         | Inl e \<Rightarrow> lastWriteWinsResolver local incoming)"



text \<open>\<open>operation.path || ''\<close>: the path, the empty string when it is empty.\<close>

definition getOperationPath :: "Operation \<Rightarrow> string" where
  "getOperationPath operation = (if op_path operation = [] then [] else op_path operation)"

definition extractPaths :: "Operation list \<Rightarrow> string list" where
  "extractPaths ops = map getOperationPath ops"




definition hasConflicts :: "Patch \<Rightarrow> Patch \<Rightarrow> bool" where
  "hasConflicts local incoming =
     (let localPaths = extractPaths (operations local);
          incomingPaths = extractPaths (operations incoming)
      in list_ex (\<lambda>p. p \<in> set incomingPaths) localPaths)"

text \<open>The two patches of the spec's scenario B, a local and an incoming write of \<open>/x\<close>.\<close>

definition scenarioB_local :: Patch where
  "scenarioB_local =
     \<lparr> patch_id = ''local-1'', timestamp = 100, source = ''tab-a'', target = ''doc'',
       operations = [\<lparr> op_kind = Replace, op_path = ''/x'', op_value = Some (JNumber 1), op_from = None \<rparr>],
       version = 1, metadata = JUndefined \<rparr>"

definition scenarioB_incoming :: Patch where
  "scenarioB_incoming =
     \<lparr> patch_id = ''remote-1'', timestamp = 200, source = ''tab-b'', target = ''doc'',
       operations = [\<lparr> op_kind = Replace, op_path = ''/x'', op_value = Some (JNumber 2), op_from = None \<rparr>],
       version = 1, metadata = JUndefined \<rparr>"

definition defaultConfig :: "unit StateMirrorConfig" where
  "defaultConfig =
     \<lparr> config_id = ''doc'', strategy = None, debounce = None, throttle = None,
       paths = None, conflictResolver = None, config_plugins = None, enableDevTools = None \<rparr>"

section \<open>Reading values\<close>

fun typeof :: "json \<Rightarrow> string" where
  "typeof JUndefined = ''undefined''"
| "typeof JNull = ''object''"
| "typeof (JBool b) = ''boolean''"
| "typeof (JNumber n) = ''number''"
| "typeof JNaN = ''number''"
| "typeof (JString s) = ''string''"
| "typeof (JDate t) = ''object''"
| "typeof (JArray xs) = ''object''"
| "typeof (JObject fs) = ''object''"

definition strictEquals :: "json \<Rightarrow> json \<Rightarrow> bool" where
  "strictEquals a b =
     (case a of
        JNaN \<Rightarrow> False
      | JDate t \<Rightarrow> False
      | JArray xs \<Rightarrow> False
      | JObject fs \<Rightarrow> False
      | _ \<Rightarrow> a = b)"

definition isNullish :: "json \<Rightarrow> bool" where
  "isNullish v = (v = JNull \<or> v = JUndefined)"

fun truthy :: "json \<Rightarrow> bool" where
  "truthy JUndefined = False"
| "truthy JNull = False"
| "truthy (JBool b) = b"
| "truthy (JNumber n) = (n \<noteq> 0)"
| "truthy JNaN = False"
| "truthy (JString s) = (s \<noteq> [])"
| "truthy _ = True"

fun isArray :: "json \<Rightarrow> bool" where
  "isArray (JArray xs) = True"
| "isArray _ = False"

fun hasLength :: "json \<Rightarrow> nat option" where
  "hasLength (JArray xs) = Some (length xs)"
| "hasLength (JString s) = Some (length s)"
| "hasLength _ = None"

definition getProp :: "json \<Rightarrow> string \<Rightarrow> json" where
  "getProp v key =
     (case map_of (ownProps v) key of
        Some x \<Rightarrow> x
      | None \<Rightarrow>
         (case hasLength v of
            Some n \<Rightarrow> (if key = ''length'' then JNumber (int n) else JUndefined)
          | None \<Rightarrow> JUndefined))"

lemma size_field: "(k, v) \<in> set fs \<Longrightarrow> size v < size (JObject fs)"
  by (induction fs) auto

lemma size_elem: "v \<in> set xs \<Longrightarrow> size v < size (JArray xs)"
  by (induction xs) auto

lemma getProp_smaller:
  assumes "key \<in> set (ownKeys a)"
    and "typeof a = ''object'' \<or> typeof (getProp a key) = ''object''"
  shows "size (getProp a key) < size a"
proof -
  from assms(1) obtain x where x: "map_of (ownProps a) key = Some x"
    by (auto simp: ownKeys_def weak_map_of_SomeI) (metis domIff dom_map_of_conv_image_fst image_eqI fst_conv not_None_eq)
  then have g: "getProp a key = x" by (simp add: getProp_def)
  from x have m: "(key, x) \<in> set (ownProps a)" by (rule map_of_SomeD)
  show ?thesis
  proof (cases a)
    case (JObject fs) with m g show ?thesis using size_field[of key x fs] by simp
  next
    case (JArray xs) with m g show ?thesis using size_elem[of x xs] by (auto dest!: set_zip_rightD)
  next
    case (JString s) with m g assms(2) show ?thesis by (auto dest!: set_zip_rightD)
  qed (use m in auto)
qed

function isEqual :: "json \<Rightarrow> json \<Rightarrow> bool" where
  "isEqual a b =
     (if strictEquals a b then True
      else if isNullish a \<or> isNullish b then False
      else if typeof a \<noteq> typeof b then False
      else if typeof a \<noteq> ''object'' then False
      else
        (let keysA = ownKeys a; keysB = ownKeys b
         in if length keysA \<noteq> length keysB then False
            else list_all (\<lambda>key. key \<in> set keysB \<and> isEqual (getProp a key) (getProp b key)) keysA))"
  by pat_completeness auto
termination
  apply (relation "measure (\<lambda>(a, b). size a)")
   apply simp
  apply (simp add: getProp_smaller)
  done

declare isEqual.simps [simp del]


text \<open>\<open>s.split(c)\<close>: the pieces between the separators, at least one piece.\<close>

fun splitOn :: "char \<Rightarrow> string \<Rightarrow> string list" where
  "splitOn c [] = [[]]"
| "splitOn c (x # xs) =
     (if x = c then [] # splitOn c xs
      else (case splitOn c xs of
              [] \<Rightarrow> [[x]]
            | p # ps \<Rightarrow> (x # p) # ps))"


fun deepClone :: "json \<Rightarrow> json" where
  "deepClone (JDate t) = JDate t"
| "deepClone (JArray xs) = JArray (map deepClone xs)"
| "deepClone (JObject fs) = JObject (map (\<lambda>kv. (fst kv, deepClone (snd kv))) fs)"
| "deepClone v = v"

definition padNat :: "nat \<Rightarrow> nat \<Rightarrow> string" where
  "padNat w n = (let s = showNat n in replicate (w - length s) CHR ''0'' @ s)"

definition toISOString :: "int \<Rightarrow> string" where
  "toISOString t =
     (let days = t div 86400000;
          ms = t mod 86400000;
          z = days + 719468;
          era = z div 146097;
          doe = z mod 146097;
          yoe = (doe - doe div 1460 + doe div 36524 - doe div 146096) div 365;
          y = yoe + era * 400;
          doy = doe - (365 * yoe + yoe div 4 - yoe div 100);
          mp = (5 * doy + 2) div 153;
          d = doy - (153 * mp + 2) div 5 + 1;
          m = (if mp < 10 then mp + 3 else mp - 9);
          year = (if m \<le> 2 then y + 1 else y);
          yearStr = (if 0 \<le> year \<and> year \<le> 9999 then padNat 4 (nat year)
                     else (if year < 0 then ''-'' else ''+'') @ padNat 6 (nat \<bar>year\<bar>))
      in yearStr @ ''-'' @ padNat 2 (nat m) @ ''-'' @ padNat 2 (nat d) @ ''T''
         @ padNat 2 (nat (ms div 3600000)) @ '':''
         @ padNat 2 (nat (ms mod 3600000 div 60000)) @ '':''
         @ padNat 2 (nat (ms mod 60000 div 1000)) @ ''.''
         @ padNat 3 (nat (ms mod 1000)) @ ''Z'')"

section \<open>The JSON-Patch library\<close>

text \<open>
  The diff engine calls \<open>jsonpatch.compare\<close> and the coordinator calls
  \<open>jsonpatch.applyPatch\<close>. Both belong to the package \<open>fast-json-patch\<close>, which the
  repository imports and does not contain. This section models the two functions as the
  package (version 3) defines them, with the helpers they use: \<open>_deepClone\<close> (a round
  trip through JSON text), \<open>escapePathComponent\<close>, \<open>hasOwnProperty\<close>, \<open>_generate\<close>
  (here \<open>generate\<close>, returning the patches it pushes; its variable \<open>changed\<close> is
  never read and is left out), \<open>_areEquals\<close>, \<open>getValueByPointer\<close>,
  \<open>applyOperation\<close> and \<open>applyPatch\<close>. A \<open>Date\<close> is the only value of the model
  with a \<open>toJSON\<close> method.
\<close>

fun jsonValue :: "json \<Rightarrow> json option" where
  "jsonValue JUndefined = None"
| "jsonValue JNaN = Some JNull"
| "jsonValue (JDate t) = Some (JString (toISOString t))"
| "jsonValue (JArray xs) =
     Some (JArray (map (\<lambda>x. case jsonValue x of None \<Rightarrow> JNull | Some v \<Rightarrow> v) xs))"
| "jsonValue (JObject fs) =
     Some (JObject (concat (map (\<lambda>kv. case jsonValue (snd kv) of
                                          None \<Rightarrow> []
                                        | Some v \<Rightarrow> [(fst kv, v)]) fs)))"
| "jsonValue v = Some v"

definition lib_deepClone :: "json \<Rightarrow> json" where
  "lib_deepClone obj =
     (if typeof obj = ''object'' then (case jsonValue obj of Some v \<Rightarrow> v | None \<Rightarrow> JNull)
      else if typeof obj = ''undefined'' then JNull
      else obj)"


definition hasOwnProperty :: "json \<Rightarrow> string \<Rightarrow> bool" where
  "hasOwnProperty obj key =
     (key \<in> set (ownKeys obj) \<or> (hasLength obj \<noteq> None \<and> key = ''length''))"





subsection \<open>Applying a patch\<close>

text \<open>
  \<open>jsonpatch.applyPatch(document, patch)\<close> as the coordinator calls it, with the
  library's defaults: the operations are not validated first, the document is mutated in
  place, and the operations are applied one after the other; the first operation that
  fails throws, and what the earlier ones wrote stays written. The library's modules run
  in strict mode. The model has its limits at the edges: array indices stay below
  \<open>2^31\<close>; a key of an array that is neither \<open>-\<close> nor a row of digits names no
  element, and an operation at such a key leaves the array as it is; an own property of
  a \<open>Date\<close> is not kept; a hole of an array reads \<open>undefined\<close>.
\<close>

fun replaceTilde :: "char \<Rightarrow> char \<Rightarrow> string \<Rightarrow> string" where
  "replaceTilde d r (x # y # zs) =
     (if x = CHR ''~'' \<and> y = d then r # replaceTilde d r zs
      else x # replaceTilde d r (y # zs))"
| "replaceTilde d r xs = xs"

definition unescapePathComponent :: "string \<Rightarrow> string" where
  "unescapePathComponent key =
     replaceTilde CHR ''0'' CHR ''~'' (replaceTilde CHR ''1'' CHR ''/'' key)"

text \<open>
  \<open>path.split('/')\<close> without its first piece. A path with no \<open>/\<close> leaves the key
  \<open>undefined\<close>, which names the property \<open>"undefined"\<close>.
\<close>

definition pointerKeys :: "string \<Rightarrow> string list" where
  "pointerKeys path =
     (case tl (splitOn CHR ''/'' path) of
        [] \<Rightarrow> [''undefined'']
      | ks \<Rightarrow> ks)"

definition isInteger :: "string \<Rightarrow> bool" where
  "isInteger str = list_all (\<lambda>c. c \<in> set ''0123456789'') str"

definition parseNat :: "string \<Rightarrow> nat" where
  "parseNat str = foldl (\<lambda>n c. 10 * n + (of_char c - 48)) 0 str"

text \<open>The index a key names in an array: \<open>-\<close> is the length, digits are a number.\<close>

definition arrayKey :: "json list \<Rightarrow> string \<Rightarrow> nat option" where
  "arrayKey xs key =
     (if key = ''-'' then Some (length xs)
      else if isInteger key then Some (parseNat key)
      else None)"

definition bannedKey :: "string \<Rightarrow> string \<Rightarrow> bool" where
  "bannedKey key previousKey =
     (key = ''__proto__'' \<or> (key = ''prototype'' \<and> previousKey = ''constructor''))"

text \<open>\<open>obj[key]\<close> while walking a pointer, and the same slot written.\<close>

definition childAt :: "json \<Rightarrow> string \<Rightarrow> json" where
  "childAt obj key =
     (case obj of
        JArray xs \<Rightarrow>
          (case arrayKey xs key of
             Some n \<Rightarrow> (if n < length xs then xs ! n else JUndefined)
           | None \<Rightarrow> getProp obj key)
      | _ \<Rightarrow> getProp obj key)"

definition putChild :: "json \<Rightarrow> string \<Rightarrow> json \<Rightarrow> json" where
  "putChild obj key child =
     (case obj of
        JArray xs \<Rightarrow>
          (case arrayKey xs key of
             Some n \<Rightarrow> (if n < length xs then JArray (xs[n := child]) else obj)
           | None \<Rightarrow> obj)
      | JObject fs \<Rightarrow> (if key \<in> set (map fst fs) then JObject (setField key child fs) else obj)
      | _ \<Rightarrow> obj)"

lemma nth_smaller:
  assumes "i < length xs" and "a = JArray xs"
  shows "((xs ! i, y), (a, b)) \<in> measure (\<lambda>(a, b). size a)"
  using size_elem [of "xs ! i" xs] assms by simp

lemma prop_smaller:
  assumes "key \<in> set (ownKeys a)" and "typeof a = ''object''"
  shows "((getProp a key, y), (a, b)) \<in> measure (\<lambda>(a, b). size a)"
  using getProp_smaller [of key a] assms by simp

function areEquals :: "json \<Rightarrow> json \<Rightarrow> bool" where
  "areEquals a b =
     (if strictEquals a b then True
      else if truthy a \<and> truthy b \<and> typeof a = ''object'' \<and> typeof b = ''object''
      then
        (case a of
           JArray xs \<Rightarrow>
             (case b of
                JArray ys \<Rightarrow>
                  (if length xs \<noteq> length ys then False
                   else list_all (\<lambda>i. areEquals (xs ! i) (ys ! i)) [0..<length xs])
              | _ \<Rightarrow> False)
         | _ \<Rightarrow>
             (if isArray b then False
              else
                (let keys = ownKeys a
                 in if length keys \<noteq> length (ownKeys b) then False
                    else if \<not> list_all (\<lambda>key. hasOwnProperty b key) keys then False
                    else list_all (\<lambda>key. areEquals (getProp a key) (getProp b key)) keys)))
      else a = JNaN \<and> b = JNaN)"
  by pat_completeness auto
termination
proof (relation "measure (\<lambda>(a, b). size a)", goal_cases)
  case 1
  show ?case by simp
qed ((rule prop_smaller; simp) | (rule nth_smaller; simp))+

declare areEquals.simps [simp del]

datatype Leaf = LAdd json | LReplace json | LRemove | LTest json | LGet | LVisit

text \<open>
  The operation at the end of a pointer, on the container \<open>obj\<close> that holds the last key:
  the container afterwards and the value read or removed.
\<close>

definition leafArray :: "Leaf \<Rightarrow> json list \<Rightarrow> string \<Rightarrow> exn + json \<times> json" where
  "leafArray lf xs key =
     (let old = childAt (JArray xs) key
      in case lf of
           LAdd v \<Rightarrow>
             (case arrayKey xs key of
                Some n \<Rightarrow> Inr (JArray (take n xs @ [v] @ drop n xs), JNumber (int n))
              | None \<Rightarrow> Inr (JArray xs, JUndefined))
         | LReplace v \<Rightarrow>
             (case arrayKey xs key of
                Some n \<Rightarrow>
                  Inr (if n < length xs then JArray (xs[n := v])
                       else JArray (xs @ replicate (n - length xs) JUndefined @ [v]), old)
              | None \<Rightarrow> Inr (JArray xs, old))
         | LRemove \<Rightarrow>
             (case arrayKey xs key of
                Some n \<Rightarrow> Inr (JArray (take n xs @ drop (Suc n) xs), old)
              | None \<Rightarrow> Inr (JArray xs, old))
         | LTest v \<Rightarrow> (if areEquals old v then Inr (JArray xs, old) else Inl TestOperationFailed)
         | LGet \<Rightarrow> Inr (JArray xs, old)
         | LVisit \<Rightarrow> Inr (JArray xs, JUndefined))"

definition leafApply :: "Leaf \<Rightarrow> json \<Rightarrow> string \<Rightarrow> exn + json \<times> json" where
  "leafApply lf obj key =
     (if lf = LVisit then Inr (obj, JUndefined)
      else if isNullish obj then Inl TypeError
      else
        (case obj of
           JArray xs \<Rightarrow> leafArray lf xs key
         | JObject fs \<Rightarrow>
             (case lf of
                LAdd v \<Rightarrow> Inr (JObject (setField key v fs), JUndefined)
              | LReplace v \<Rightarrow> Inr (JObject (setField key v fs), getProp obj key)
              | LRemove \<Rightarrow> Inr (JObject (filter (\<lambda>kv. fst kv \<noteq> key) fs), getProp obj key)
              | LTest v \<Rightarrow>
                  (if areEquals (getProp obj key) v then Inr (obj, getProp obj key)
                   else Inl TestOperationFailed)
              | _ \<Rightarrow> Inr (obj, getProp obj key))
         | JDate t \<Rightarrow>
             (case lf of
                LTest v \<Rightarrow>
                  (if areEquals JUndefined v then Inr (obj, JUndefined) else Inl TestOperationFailed)
              | _ \<Rightarrow> Inr (obj, JUndefined))
         | _ \<Rightarrow>
             (case lf of
                LAdd v \<Rightarrow> Inl TypeError
              | LReplace v \<Rightarrow> Inl TypeError
              | LRemove \<Rightarrow> (if hasOwnProperty obj key then Inl TypeError else Inr (obj, getProp obj key))
              | LTest v \<Rightarrow>
                  (if areEquals (getProp obj key) v then Inr (obj, getProp obj key)
                   else Inl TestOperationFailed)
              | _ \<Rightarrow> Inr (obj, getProp obj key))))"

text \<open>
  The walk of \<open>applyOperation\<close> along the keys of a pointer, from the container \<open>obj\<close>;
  \<open>previousKey\<close> is the piece of the path before the current one.
\<close>

fun walk :: "Leaf \<Rightarrow> json \<Rightarrow> string \<Rightarrow> string list \<Rightarrow> exn + json \<times> json" where
  "walk lf obj previousKey [] = Inr (obj, JUndefined)"
| "walk lf obj previousKey (raw # rest) =
     (let key = unescapePathComponent raw
      in if bannedKey key previousKey then Inl TypeError
         else if rest = [] then leafApply lf obj key
         else if isNullish obj then Inl TypeError
         else
           (case walk lf (childAt obj key) raw rest of
              Inl e \<Rightarrow> Inl e
            | Inr (child, r) \<Rightarrow> Inr (putChild obj key child, r)))"

text \<open>
  The walk from the document along a path. With a path that has no \<open>/\<close> the key is
  \<open>undefined\<close>, and on an array the library's \<open>isInteger(key)\<close> then throws.
\<close>

definition walkPointer :: "Leaf \<Rightarrow> json \<Rightarrow> string \<Rightarrow> exn + json \<times> json" where
  "walkPointer lf document path =
     (if tl (splitOn CHR ''/'' path) = [] \<and> isArray document then Inl TypeError
      else walk lf document [] (pointerKeys path))"

text \<open>A pointer that is \<open>undefined\<close> (\<open>None\<close>) is read as the path \<open>""\<close> by the walk.\<close>

definition getValueByPointer :: "json \<Rightarrow> string option \<Rightarrow> exn + json" where
  "getValueByPointer document pointer =
     (if pointer = Some [] then Inr document
      else
        (case walkPointer LGet document (case pointer of Some p \<Rightarrow> p | None \<Rightarrow> []) of
           Inl e \<Rightarrow> Inl e
         | Inr (d, v) \<Rightarrow> Inr v))"

text \<open>
  \<open>applyOperation\<close> for an operation whose path is not the root: the document after the
  call and the exception when it threw. A \<open>move\<close> that fails in its second half leaves
  its removal done. A \<open>move\<close> from the root would make the document contain itself; the
  model inserts the document's value.
\<close>

definition applyOperation :: "json \<Rightarrow> Operation \<Rightarrow> json \<times> exn option" where
  "applyOperation document opn =
     (let path = op_path opn;
          v = (case op_value opn of Some x \<Rightarrow> x | None \<Rightarrow> JUndefined);
          single = (\<lambda>lf. case walkPointer lf document path of
                             Inl e \<Rightarrow> (document, Some e)
                           | Inr (d, r) \<Rightarrow> (d, None))
      in case op_kind opn of
           Add \<Rightarrow> single (LAdd v)
         | Replace \<Rightarrow> single (LReplace v)
         | Remove \<Rightarrow> single LRemove
         | Test \<Rightarrow> single (LTest v)
         | Copy \<Rightarrow>
             (case walkPointer LVisit document path of
                Inl e \<Rightarrow> (document, Some e)
              | Inr _ \<Rightarrow>
                 (case getValueByPointer document (op_from opn) of
                    Inl e \<Rightarrow> (document, Some e)
                  | Inr valueToCopy \<Rightarrow>
                     (case walkPointer (LAdd (lib_deepClone valueToCopy)) document path of
                        Inl e \<Rightarrow> (document, Some e)
                      | Inr (d, r) \<Rightarrow> (d, None))))
         | Move \<Rightarrow>
             (case walkPointer LVisit document path of
                Inl e \<Rightarrow> (document, Some e)
              | Inr _ \<Rightarrow>
                 (case getValueByPointer document (Some path) of
                    Inl e \<Rightarrow> (document, Some e)
                  | Inr removed \<Rightarrow>
                     (case (if op_from opn = Some [] then Inr (document, document)
                            else walkPointer LRemove document
                                   (case op_from opn of Some p \<Rightarrow> p | None \<Rightarrow> [])) of
                        Inl e \<Rightarrow> (document, Some e)
                      | Inr (d, originalValue) \<Rightarrow>
                         (case walkPointer (LAdd originalValue) d path of
                            Inl e \<Rightarrow> (d, Some e)
                          | Inr (d', r) \<Rightarrow> (d', None))))))"

text \<open>
  \<open>applyPatch\<close> keeps a variable \<open>document\<close> that a root operation replaces by
  another object. The live object is the one the caller passed; the current document is
  either the object found in the live one along some keys (at first the live object itself)
  or a value apart from it.
\<close>

datatype DocRef = AtLive "string list" | Detached json

fun deref :: "json \<Rightarrow> DocRef \<Rightarrow> json" where
  "deref live (AtLive ks) = foldl childAt live ks"
| "deref live (Detached d) = d"

fun putAt :: "json \<Rightarrow> string list \<Rightarrow> json \<Rightarrow> json" where
  "putAt obj [] v = v"
| "putAt obj (k # ks) v = putChild obj k (putAt (childAt obj k) ks v)"

fun storeDoc :: "json \<Rightarrow> DocRef \<Rightarrow> json \<Rightarrow> json \<times> DocRef" where
  "storeDoc live (AtLive ks) d = (putAt live ks d, AtLive ks)"
| "storeDoc live (Detached old) d = (live, Detached d)"

definition subRef :: "DocRef \<Rightarrow> string option \<Rightarrow> json \<Rightarrow> DocRef" where
  "subRef ref pointer v =
     (if pointer = Some [] then ref
      else if typeof v = ''object'' \<and> v \<noteq> JNull
      then (case ref of
              AtLive ks \<Rightarrow>
                AtLive (ks @ map unescapePathComponent
                               (pointerKeys (case pointer of Some p \<Rightarrow> p | None \<Rightarrow> [])))
            | Detached old \<Rightarrow> Detached v)
      else Detached v)"

definition applyStep :: "json \<times> DocRef \<Rightarrow> Operation \<Rightarrow> (json \<times> DocRef) \<times> exn option" where
  "applyStep st opn =
     (let live = fst st; ref = snd st;
          document = deref live ref;
          v = (case op_value opn of Some x \<Rightarrow> x | None \<Rightarrow> JUndefined)
      in if op_path opn = []
         then
           (case op_kind opn of
              Add \<Rightarrow> ((live, Detached v), None)
            | Replace \<Rightarrow> ((live, Detached v), None)
            | Remove \<Rightarrow> ((live, Detached JNull), None)
            | Test \<Rightarrow>
                (if areEquals document v then (st, None) else (st, Some TestOperationFailed))
            | _ \<Rightarrow>
                (case getValueByPointer document (op_from opn) of
                   Inl e \<Rightarrow> (st, Some e)
                 | Inr found \<Rightarrow> ((live, subRef ref (op_from opn) found), None)))
         else
           (case applyOperation document opn of
              (d, e) \<Rightarrow> (storeDoc live ref d, e)))"

fun applyLoop :: "json \<times> DocRef \<Rightarrow> Operation list \<Rightarrow> (json \<times> DocRef) \<times> exn option" where
  "applyLoop st [] = (st, None)"
| "applyLoop st (opn # rest) =
     (case applyStep st opn of
        (st', Some e) \<Rightarrow> (st', Some e)
      | (st', None) \<Rightarrow> applyLoop st' rest)"

text \<open>
  The outcome of \<open>applyPatch(document, patch)\<close>: the object passed as \<open>document\<close> as
  the call leaves it, the \<open>newDocument\<close> of the result, and the exception when the call
  threw.
\<close>

record ApplyOutcome =
  liveDocument :: json
  newDocument :: json
  thrown :: "exn option"

definition lib_applyPatch :: "json \<Rightarrow> Operation list \<Rightarrow> ApplyOutcome" where
  "lib_applyPatch document patch =
     (case applyLoop (document, AtLive []) patch of
        ((live, ref), e) \<Rightarrow>
          \<lparr> liveDocument = live, newDocument = deref live ref, thrown = e \<rparr>)"

section \<open>Diff engine\<close>

record DiffEngine =
  previousState :: json





definition reset :: "DiffEngine \<Rightarrow> DiffEngine" where
  "reset engine = engine\<lparr> previousState := JNull \<rparr>"

definition setInitialState :: "DiffEngine \<Rightarrow> json \<Rightarrow> DiffEngine" where
  "setInitialState engine state = engine\<lparr> previousState := deepClone state \<rparr>"

section \<open>Offline queue\<close>

text \<open>
  The queue keeps its patches in the object store \<open>patches\<close> (key path \<open>id\<close>) of the
  browser's IndexedDB, or hands them to a storage adapter when one was given.
  \<open>indexedDB\<close> is that store, the records in key order, \<open>None\<close> where the
  environment has no IndexedDB; \<open>db\<close> tells that \<open>this.db\<close> is an open database. The
  requests to the store are taken to succeed. \<open>console\<close> holds the lines the queue
  writes to the console. An asynchronous method is modelled run to its end.
\<close>

record OfflineQueue =
  indexedDB :: "Patch list option"
  db :: bool
  isInitialized :: bool
  flushInProgress :: bool
  storageAdapter :: "(string \<times> Patch) list option"
  console :: "string list"

definition logLine :: "string \<Rightarrow> OfflineQueue \<Rightarrow> OfflineQueue" where
  "logLine line q = q\<lparr> console := console q @ [line] \<rparr>"

text \<open>\<open>store.put(patch)\<close>: the record replaces the one of the same key.\<close>

definition storePut :: "Patch \<Rightarrow> Patch list \<Rightarrow> Patch list" where
  "storePut patch records =
     insort_key patch_id patch (filter (\<lambda>r. patch_id r \<noteq> patch_id patch) records)"

definition storeDelete :: "string \<Rightarrow> Patch list \<Rightarrow> Patch list" where
  "storeDelete key records = filter (\<lambda>r. patch_id r \<noteq> key) records"

fun adapterSet :: "string \<Rightarrow> Patch \<Rightarrow> (string \<times> Patch) list \<Rightarrow> (string \<times> Patch) list" where
  "adapterSet k v [] = [(k, v)]"
| "adapterSet k v ((k', v') # kvs) =
     (if k = k' then (k, v) # kvs else (k', v') # adapterSet k v kvs)"

definition initialize :: "OfflineQueue \<Rightarrow> exn option \<times> OfflineQueue" where
  "initialize q =
     (if isInitialized q then (None, q)
      else if storageAdapter q \<noteq> None then (None, q\<lparr> isInitialized := True \<rparr>)
      else if indexedDB q = None
      then (Some (Error ''IndexedDB is not supported in this environment''),
            logLine ''StateMirror: Failed to initialize offline queue:'' q)
      else (None, q\<lparr> db := True, isInitialized := True \<rparr>))"

definition ensureInitialized :: "OfflineQueue \<Rightarrow> exn option \<times> OfflineQueue" where
  "ensureInitialized q = (if \<not> isInitialized q then initialize q else (None, q))"

definition enqueue :: "OfflineQueue \<Rightarrow> Patch \<Rightarrow> exn option \<times> OfflineQueue" where
  "enqueue q patch =
     (case ensureInitialized q of
        (Some e, q1) \<Rightarrow> (Some e, q1)
      | (None, q1) \<Rightarrow>
         (case storageAdapter q1 of
            Some kvs \<Rightarrow>
              (None, q1\<lparr> storageAdapter := Some (adapterSet (''patch-'' @ patch_id patch) patch kvs) \<rparr>)
          | None \<Rightarrow>
             (case (if db q1 then indexedDB q1 else None) of
                None \<Rightarrow> (Some (Error ''Database not initialized''),
                          logLine ''StateMirror: Failed to enqueue patch:'' q1)
              | Some records \<Rightarrow> (None, q1\<lparr> indexedDB := Some (storePut patch records) \<rparr>))))"

definition getAll :: "OfflineQueue \<Rightarrow> exn option \<times> Patch list \<times> OfflineQueue" where
  "getAll q =
     (case ensureInitialized q of
        (Some e, q1) \<Rightarrow> (Some e, [], q1)
      | (None, q1) \<Rightarrow>
         (case storageAdapter q1 of
            Some kvs \<Rightarrow> (None, [], q1)
          | None \<Rightarrow>
             (case (if db q1 then indexedDB q1 else None) of
                None \<Rightarrow> (None, [], logLine ''StateMirror: Failed to get patches from queue:'' q1)
              | Some records \<Rightarrow> (None, records, q1))))"

text \<open>
  \<open>remove(patches)\<close>. (On the IndexedDB path the promise of the source settles only
  when a delete request succeeds, so a call with no patch would never return; \<open>flush\<close>
  calls it with at least one.)
\<close>

definition remove :: "OfflineQueue \<Rightarrow> Patch list \<Rightarrow> exn option \<times> OfflineQueue" where
  "remove q patches =
     (case ensureInitialized q of
        (Some e, q1) \<Rightarrow> (Some e, q1)
      | (None, q1) \<Rightarrow>
         (case storageAdapter q1 of
            Some kvs \<Rightarrow>
              (None, q1\<lparr> storageAdapter :=
                 Some (filter (\<lambda>kv. fst kv \<notin> set (map (\<lambda>p. ''patch-'' @ patch_id p) patches)) kvs) \<rparr>)
          | None \<Rightarrow>
             (case (if db q1 then indexedDB q1 else None) of
                None \<Rightarrow> (Some (Error ''Database not initialized''),
                          logLine ''StateMirror: Failed to remove patches from queue:'' q1)
              | Some records \<Rightarrow>
                 (None, q1\<lparr> indexedDB := Some (fold (\<lambda>p. storeDelete (patch_id p)) patches records) \<rparr>))))"

text \<open>
  The send function handed to \<open>flush\<close> acts on the queue (it is a closure that may call
  the queue's methods) and on whatever else it reaches, a state of type \<open>'w\<close>; it
  returns or throws.
\<close>

type_synonym 'w SendFunction = "Patch \<Rightarrow> 'w \<Rightarrow> OfflineQueue \<Rightarrow> exn option \<times> 'w \<times> OfflineQueue"

text \<open>
  The loop of \<open>flush\<close> over the sorted patches. Beside the states it returns the
  attempts in the order they were made, each patch with \<open>True\<close> when it went to
  \<open>successfulPatches\<close> and \<open>False\<close> when it went to \<open>failedPatches\<close>.
\<close>

fun sendLoop ::
  "'w SendFunction \<Rightarrow> Patch list \<Rightarrow> 'w \<Rightarrow> OfflineQueue \<Rightarrow> 'w \<times> OfflineQueue \<times> (Patch \<times> bool) list" where
  "sendLoop sendFunction [] w q = (w, q, [])"
| "sendLoop sendFunction (patch # rest) w q =
     (case sendFunction patch w q of
        (None, w1, q1) \<Rightarrow>
          (case sendLoop sendFunction rest w1 q1 of
             (w2, q2, attempts) \<Rightarrow> (w2, q2, (patch, True) # attempts))
      | (Some e, w1, q1) \<Rightarrow>
          (case sendLoop sendFunction rest w1
                  (logLine ''StateMirror: Failed to send patch from queue:'' q1) of
             (w2, q2, attempts) \<Rightarrow> (w2, q2, (patch, False) # attempts)))"

definition successfulOf :: "(Patch \<times> bool) list \<Rightarrow> Patch list" where
  "successfulOf attempts = map fst (filter snd attempts)"


definition flush ::
  "'w SendFunction \<Rightarrow> 'w \<Rightarrow> OfflineQueue \<Rightarrow> exn option \<times> 'w \<times> OfflineQueue \<times> (Patch \<times> bool) list" where
  "flush sendFunction w q =
     (if flushInProgress q
      then (None, w, logLine ''StateMirror: Flush already in progress'' q, [])
      else
        (case getAll (q\<lparr> flushInProgress := True \<rparr>) of
           (Some e, patches, q1) \<Rightarrow>
             (Some e, w,
              (logLine ''StateMirror: Error during queue flush:'' q1)\<lparr> flushInProgress := False \<rparr>, [])
         | (None, patches, q1) \<Rightarrow>
            (if length patches = 0 then (None, w, q1\<lparr> flushInProgress := False \<rparr>, [])
             else
               (case sendLoop sendFunction (sort_key timestamp patches) w
                       (logLine ''StateMirror: Flushing patches from queue'' q1) of
                  (w2, q2, attempts) \<Rightarrow>
                    (case (if length (successfulOf attempts) > 0
                           then remove q2 (successfulOf attempts) else (None, q2)) of
                       (Some e, q3) \<Rightarrow>
                         (Some e, w2,
                          (logLine ''StateMirror: Error during queue flush:'' q3)
                            \<lparr> flushInProgress := False \<rparr>, attempts)
                     | (None, q3) \<Rightarrow>
                         (None, w2,
                          (logLine ''StateMirror: Flushed patches'' q3)
                            \<lparr> flushInProgress := False \<rparr>, attempts))))))"

section \<open>Broadcaster\<close>

record BroadcastMessage =
  msg_type :: string
  msg_data :: "Patch option"
  msg_source :: string
  msg_timestamp :: int

text \<open>
  The transport of one instance. \<open>transportAvailable\<close> and \<open>transportFails\<close> stand for
  the environment: whether a \<open>BroadcastChannel\<close> or a \<open>window\<close> with \<open>localStorage\<close>
  exists, and whether posting a message throws. \<open>posted\<close> are the messages handed to the
  channel, \<open>messageHandlers\<close> counts the registered handlers (the coordinator registers
  its \<open>handleMessage\<close>, nothing else does).
\<close>

record Broadcaster =
  bc_sourceId :: string
  transportAvailable :: bool
  transportFails :: bool
  bc_isConnected :: bool
  posted :: "BroadcastMessage list"
  messageHandlers :: nat

definition bc_connect :: "Broadcaster \<Rightarrow> exn option \<times> Broadcaster" where
  "bc_connect b =
     (if transportAvailable b then (None, b\<lparr> bc_isConnected := True \<rparr>)
      else (Some (Error ''window is not defined''), b))"

definition bc_disconnect :: "Broadcaster \<Rightarrow> Broadcaster" where
  "bc_disconnect b = b\<lparr> bc_isConnected := False, messageHandlers := 0 \<rparr>"

definition bc_send :: "Broadcaster \<Rightarrow> BroadcastMessage \<Rightarrow> int \<Rightarrow> exn option \<times> Broadcaster" where
  "bc_send b message now =
     (if \<not> bc_isConnected b then (Some (Error ''Broadcaster is not connected''), b)
      else
        (let enrichedMessage =
               message\<lparr> msg_source := (if msg_source message \<noteq> [] then msg_source message
                                        else bc_sourceId b),
                        msg_timestamp := (if msg_timestamp message \<noteq> 0 then msg_timestamp message
                                          else now) \<rparr>
         in if transportFails b then (Some (Error ''failed to post the message''), b)
            else (None, b\<lparr> posted := posted b @ [enrichedMessage] \<rparr>)))"

definition isValidMessage :: "BroadcastMessage \<Rightarrow> bool" where
  "isValidMessage message = (msg_data message \<noteq> None)"

text \<open>
  \<open>Broadcaster.handleMessage\<close>: how many handlers are called with the message (none for
  a message of the instance's own or an invalid one).
\<close>

definition bc_handleMessage :: "Broadcaster \<Rightarrow> BroadcastMessage \<Rightarrow> nat" where
  "bc_handleMessage b message =
     (if msg_source message = bc_sourceId b then 0
      else if \<not> isValidMessage message then 0
      else messageHandlers b)"

section \<open>Coordinator (\<open>StateMirrorWatcher\<close>)\<close>

text \<open>The events the coordinator emits, one constructor for each payload it builds.\<close>

datatype Event =
    WatchStarted json
  | WatchStopped
  | StateUpdated Patch "Operation list"
  | ApplyError exn "Operation list"
  | PluginLoaded string
  | PluginError string "HookName option" exn
  | Connected
  | Disconnected
  | ConnectionError exn
  | ConflictResolved Patch Patch Patch
  | PatchApplied Patch json
  | PatchError exn Patch

fun eventName :: "Event \<Rightarrow> string" where
  "eventName (WatchStarted s) = ''update''"
| "eventName WatchStopped = ''update''"
| "eventName (StateUpdated p ops) = ''update''"
| "eventName (ApplyError e ops) = ''error''"
| "eventName (PluginLoaded i) = ''plugin-loaded''"
| "eventName (PluginError i h e) = ''plugin-error''"
| "eventName Connected = ''connect''"
| "eventName Disconnected = ''disconnect''"
| "eventName (ConnectionError e) = ''error''"
| "eventName (ConflictResolved l i r) = ''conflict''"
| "eventName (PatchApplied p r) = ''sync''"
| "eventName (PatchError e p) = ''error''"

text \<open>
  The coordinator's fields (\<open>id\<close> is \<open>instanceId\<close>, \<open>version\<close> is
  \<open>versionCounter\<close>). \<open>emitted\<close> lists the calls of \<open>emit\<close> in order; the handlers
  registered for an event are code of the caller. \<open>pendingConnect\<close> holds the calls of
  \<open>connect\<close> that wait at their first \<open>await\<close>, each with the outcome of the
  broadcaster's \<open>connect\<close>: \<open>watch\<close> does not wait for them. Every other
  asynchronous method is modelled run to its end. The timers of the throttle manager
  are not part of the model.
\<close>

record 'ps StateMirrorWatcher =
  instanceId :: string
  config :: "'ps StateMirrorConfig"
  state :: json
  isConnected :: bool
  isWatching :: bool
  diffEngine :: DiffEngine
  broadcaster :: Broadcaster
  offlineQueue :: OfflineQueue
  plugins :: "'ps Plugin list"
  emitted :: "Event list"
  sourceId :: string
  versionCounter :: int
  pendingConnect :: "exn option list"

definition emit :: "Event \<Rightarrow> 'ps StateMirrorWatcher \<Rightarrow> 'ps StateMirrorWatcher" where
  "emit event w = w\<lparr> emitted := emitted w @ [event] \<rparr>"

definition hookOf :: "HookName \<Rightarrow> 'ps Plugin \<Rightarrow> 'ps Hook option" where
  "hookOf hook plugin =
     (case hook of OnSend \<Rightarrow> onSend plugin | OnReceive \<Rightarrow> onReceive plugin | OnApply \<Rightarrow> onApply plugin)"

text \<open>
  The loop of \<open>processPlugins\<close> over the plugins: the data after the hooks, the plugins
  with their states after the calls, and the \<open>plugin-error\<close> events to emit.
\<close>

fun runHooks ::
  "HookName \<Rightarrow> 'ps Plugin list \<Rightarrow> Patch option \<Rightarrow> Patch option \<times> 'ps Plugin list \<times> Event list" where
  "runHooks hook [] processedData = (processedData, [], [])"
| "runHooks hook (plugin # rest) processedData =
     (case hookOf hook plugin of
        None \<Rightarrow>
          (case runHooks hook rest processedData of
             (d, ps, evs) \<Rightarrow> (d, plugin # ps, evs))
      | Some hookFn \<Rightarrow>
          (case hookFn processedData (pluginState plugin) of
             (ReturnsUndefined, s) \<Rightarrow>
               (case runHooks hook rest processedData of
                  (d, ps, evs) \<Rightarrow> (d, plugin\<lparr> pluginState := s \<rparr> # ps, evs))
           | (Returns r, s) \<Rightarrow>
               (case runHooks hook rest r of
                  (d, ps, evs) \<Rightarrow> (d, plugin\<lparr> pluginState := s \<rparr> # ps, evs))
           | (Throws e, s) \<Rightarrow>
               (case runHooks hook rest processedData of
                  (d, ps, evs) \<Rightarrow>
                    (d, plugin\<lparr> pluginState := s \<rparr> # ps,
                     PluginError (plugin_id plugin) (Some hook) e # evs))))"

definition processPlugins ::
  "HookName \<Rightarrow> Patch option \<Rightarrow> 'ps StateMirrorWatcher \<Rightarrow> Patch option \<times> 'ps StateMirrorWatcher" where
  "processPlugins hook data w =
     (case runHooks hook (plugins w) data of
        (d, ps, evs) \<Rightarrow> (d, w\<lparr> plugins := ps, emitted := emitted w @ evs \<rparr>))"

text \<open>\<open>getCurrentPatch\<close> returns \<open>null\<close>.\<close>

definition getCurrentPatch :: "'ps StateMirrorWatcher \<Rightarrow> Patch option" where
  "getCurrentPatch w = None"

definition broadcastPatch ::
  "'ps StateMirrorWatcher \<Rightarrow> Patch \<Rightarrow> int \<Rightarrow> exn option \<times> 'ps StateMirrorWatcher" where
  "broadcastPatch w patch now =
     (if \<not> isConnected w
      then (case enqueue (offlineQueue w) patch of
              (e, q) \<Rightarrow> (e, w\<lparr> offlineQueue := q \<rparr>))
      else
        (let message = \<lparr> msg_type = ''patch'', msg_data = Some patch,
                          msg_source = sourceId w, msg_timestamp = now \<rparr>
         in case bc_send (broadcaster w) message now of
              (None, b) \<Rightarrow> (None, w\<lparr> broadcaster := b \<rparr>)
            | (Some e, b) \<Rightarrow>
                (case enqueue (offlineQueue w) patch of
                   (e', q) \<Rightarrow> (e', w\<lparr> broadcaster := b, offlineQueue := q \<rparr>))))"

text \<open>
  \<open>update(operations)\<close>; \<open>now\<close> and \<open>uuid\<close> are what \<open>Date.now()\<close> and
  \<open>uuidv4()\<close> return. The promise of \<open>broadcastPatch\<close> is dropped, and with it its
  exception.
\<close>

definition update ::
  "'ps StateMirrorWatcher \<Rightarrow> Operation list \<Rightarrow> int \<Rightarrow> string \<Rightarrow> 'ps StateMirrorWatcher" where
  "update w ops now uuid =
     (if \<not> isWatching w then w
      else
        (let outcome = lib_applyPatch (state w) ops;
             w1 = w\<lparr> state := liveDocument outcome \<rparr>
         in case thrown outcome of
              Some e \<Rightarrow> emit (ApplyError e ops) w1
            | None \<Rightarrow>
               (let patch = \<lparr> patch_id = uuid, timestamp = now, source = sourceId w1,
                               target = instanceId w1, operations = ops,
                               version = versionCounter w1 + 1,
                               metadata = JObject [(''applied'', JBool True)] \<rparr>;
                    w2 = w1\<lparr> versionCounter := versionCounter w1 + 1 \<rparr>
                in case processPlugins OnSend (Some patch) w2 of
                     (Some processedPatch, w3) \<Rightarrow>
                       emit (StateUpdated patch ops) (snd (broadcastPatch w3 processedPatch now))
                   | (None, w3) \<Rightarrow> emit (StateUpdated patch ops) w3)))"


definition applyPatch :: "'ps StateMirrorWatcher \<Rightarrow> Patch \<Rightarrow> 'ps StateMirrorWatcher" where
  "applyPatch w patch =
     (let outcome = lib_applyPatch (state w) (operations patch);
          w1 = w\<lparr> state := liveDocument outcome \<rparr>
      in case thrown outcome of
           Some e \<Rightarrow> emit (PatchError e patch) w1
         | None \<Rightarrow>
            emit (PatchApplied patch (newDocument outcome))
              (snd (processPlugins OnApply (Some patch) w1)))"

definition handlePatch :: "'ps StateMirrorWatcher \<Rightarrow> Patch \<Rightarrow> 'ps StateMirrorWatcher" where
  "handlePatch w patch =
     (if source patch = sourceId w then w
      else
        (case processPlugins OnReceive (Some patch) w of
           (None, w1) \<Rightarrow> w1
         | (Some processedPatch, w1) \<Rightarrow>
            (case getCurrentPatch w1 of
               Some currentPatch \<Rightarrow>
                 (if hasConflicts currentPatch processedPatch
                  then
                    (let resolved = resolveConflict currentPatch processedPatch (config w1) None
                     in applyPatch (emit (ConflictResolved currentPatch patch resolved) w1) resolved)
                  else applyPatch w1 processedPatch)
             | None \<Rightarrow> applyPatch w1 processedPatch)))"

definition handleMessage :: "'ps StateMirrorWatcher \<Rightarrow> BroadcastMessage \<Rightarrow> 'ps StateMirrorWatcher" where
  "handleMessage w message =
     (if msg_type message = ''patch''
      then (case msg_data message of Some patch \<Rightarrow> handlePatch w patch | None \<Rightarrow> w)
      else w)"

text \<open>
  A message arriving on the channel: the broadcaster calls each registered handler, which
  is the coordinator's \<open>handleMessage\<close>.
\<close>

definition onChannelMessage ::
  "'ps StateMirrorWatcher \<Rightarrow> BroadcastMessage \<Rightarrow> 'ps StateMirrorWatcher" where
  "onChannelMessage w message =
     ((\<lambda>w'. handleMessage w' message) ^^ bc_handleMessage (broadcaster w) message) w"

definition flushQueue :: "'ps StateMirrorWatcher \<Rightarrow> int \<Rightarrow> exn option \<times> 'ps StateMirrorWatcher" where
  "flushQueue w now =
     (case flush (\<lambda>patch w' q.
                    case broadcastPatch (w'\<lparr> offlineQueue := q \<rparr>) patch now of
                      (e, w'') \<Rightarrow> (e, w'', offlineQueue w''))
             w (offlineQueue w) of
        (e, w1, q1, attempts) \<Rightarrow> (e, w1\<lparr> offlineQueue := q1 \<rparr>))"

text \<open>\<open>use(plugin)\<close>.\<close>

definition use :: "'ps StateMirrorWatcher \<Rightarrow> 'ps Plugin \<Rightarrow> 'ps StateMirrorWatcher" where
  "use w plugin =
     (if plugin_id plugin \<in> set (map plugin_id (plugins w)) then w
      else
        (case onInit plugin of
           None \<Rightarrow> emit (PluginLoaded (plugin_id plugin)) (w\<lparr> plugins := plugins w @ [plugin] \<rparr>)
         | Some init \<Rightarrow>
            (case init (pluginState plugin) of
               (None, s) \<Rightarrow>
                 emit (PluginLoaded (plugin_id plugin))
                   (w\<lparr> plugins := plugins w @ [plugin\<lparr> pluginState := s \<rparr>] \<rparr>)
             | (Some e, s) \<Rightarrow>
                 emit (PluginLoaded (plugin_id plugin))
                   (emit (PluginError (plugin_id plugin) None e)
                      (w\<lparr> plugins := plugins w @ [plugin\<lparr> pluginState := s \<rparr>] \<rparr>)))))"

definition initializePlugins :: "'ps StateMirrorWatcher \<Rightarrow> 'ps StateMirrorWatcher" where
  "initializePlugins w =
     (case config_plugins (config w) of
        Some ps \<Rightarrow> fold (\<lambda>plugin w'. use w' plugin) ps w
      | None \<Rightarrow> w)"

text \<open>
  \<open>watch(state, config)\<close>. Its call of \<open>connect\<close> runs the broadcaster's \<open>connect\<close>
  and then waits; \<open>connectResumed\<close> is the rest of \<open>connect\<close>, run later.
\<close>

definition watch ::
  "'ps StateMirrorWatcher \<Rightarrow> json \<Rightarrow> 'ps StateMirrorConfig \<Rightarrow> 'ps StateMirrorWatcher" where
  "watch w st cfg =
     (let w1 = w\<lparr> state := st,
                  config := cfg\<lparr> strategy := (case strategy cfg of None \<Rightarrow> Some ''broadcast'' | s \<Rightarrow> s),
                                  debounce := (case debounce cfg of None \<Rightarrow> Some 100 | d \<Rightarrow> d),
                                  throttle := (case throttle cfg of None \<Rightarrow> Some 1000 | t \<Rightarrow> t) \<rparr>,
                  instanceId := config_id cfg,
                  diffEngine := setInitialState (diffEngine w) st \<rparr>;
          w2 = initializePlugins w1;
          w3 = (case bc_connect (broadcaster w2) of
                  (e, b) \<Rightarrow> w2\<lparr> broadcaster := b, pendingConnect := pendingConnect w2 @ [e] \<rparr>)
      in emit (WatchStarted st) (w3\<lparr> isWatching := True \<rparr>))"

definition connectResumed :: "'ps StateMirrorWatcher \<Rightarrow> int \<Rightarrow> 'ps StateMirrorWatcher" where
  "connectResumed w now =
     (case pendingConnect w of
        [] \<Rightarrow> w
      | Some e # rest \<Rightarrow> emit (ConnectionError e) (w\<lparr> pendingConnect := rest \<rparr>)
      | None # rest \<Rightarrow>
         (let w1 = w\<lparr> pendingConnect := rest,
                      broadcaster := (broadcaster w)\<lparr> messageHandlers := messageHandlers (broadcaster w) + 1 \<rparr>,
                      isConnected := True \<rparr>;
              w2 = emit Connected w1
          in case flushQueue w2 now of
               (Some e, w3) \<Rightarrow> emit (ConnectionError e) w3
             | (None, w3) \<Rightarrow> w3))"

definition disconnect :: "'ps StateMirrorWatcher \<Rightarrow> 'ps StateMirrorWatcher" where
  "disconnect w =
     emit Disconnected (w\<lparr> broadcaster := bc_disconnect (broadcaster w), isConnected := False \<rparr>)"

definition unwatch :: "'ps StateMirrorWatcher \<Rightarrow> 'ps StateMirrorWatcher" where
  "unwatch w =
     (let w1 = disconnect (w\<lparr> isWatching := False \<rparr>)
      in emit WatchStopped (w1\<lparr> diffEngine := reset (diffEngine w1) \<rparr>))"

text \<open>
  \<open>new StateMirrorWatcher()\<close> in an environment with the given IndexedDB store and
  transport; \<open>uuid\<close> is what \<open>uuidv4()\<close> returns for the source id. \<open>config\<close>, which
  the source leaves unassigned until \<open>watch\<close>, has no option set.
\<close>

definition newWatcher :: "string \<Rightarrow> Patch list option \<Rightarrow> bool \<Rightarrow> 'ps StateMirrorWatcher" where
  "newWatcher uuid idb transport =
     \<lparr> instanceId = [],
       config = \<lparr> config_id = [], strategy = None, debounce = None, throttle = None,
                  paths = None, conflictResolver = None, config_plugins = None,
                  enableDevTools = None \<rparr>,
       state = JUndefined,
       isConnected = False,
       isWatching = False,
       diffEngine = \<lparr> previousState = JNull \<rparr>,
       broadcaster = \<lparr> bc_sourceId = uuid, transportAvailable = transport, transportFails = False,
                       bc_isConnected = False, posted = [], messageHandlers = 0 \<rparr>,
       offlineQueue = \<lparr> indexedDB = idb, db = False, isInitialized = False,
                        flushInProgress = False, storageAdapter = None, console = [] \<rparr>,
       plugins = [],
       emitted = [],
       sourceId = uuid,
       versionCounter = 0,
       pendingConnect = [] \<rparr>"

section \<open>Relations and sample instances used by the theorems\<close>


text \<open>
  What of an instance lies outside the watched object and the diff engine's snapshot.
\<close>

definition outside :: "'ps StateMirrorWatcher \<Rightarrow> 'ps StateMirrorWatcher" where
  "outside w = w\<lparr> state := JUndefined, diffEngine := \<lparr> previousState = JUndefined \<rparr> \<rparr>"


text \<open>
  The queue apart from its console.
\<close>

definition quiet :: "OfflineQueue \<Rightarrow> OfflineQueue" where
  "quiet q = q\<lparr> console := [] \<rparr>"





definition replaceOp :: "string \<Rightarrow> json \<Rightarrow> Operation" where
  "replaceOp p v = \<lparr> op_kind = Replace, op_path = p, op_value = Some v, op_from = None \<rparr>"










text \<open>
  A plugin that counts the calls of its \<open>onReceive\<close> hook.
\<close>

definition countingPlugin :: "nat Plugin" where
  "countingPlugin =
     \<lparr> plugin_id = ''counter'', pluginState = 0, onInit = None, onSend = None,
       onReceive = Some (\<lambda>data n. (ReturnsUndefined, Suc n)), onApply = None, onDestroy = None \<rparr>"

text \<open>
  An instance with that plugin that watches \<open>{x: 0}\<close> and is connected.
\<close>

definition tabA :: "nat StateMirrorWatcher" where
  "tabA =
     connectResumed
       (watch (use (newWatcher ''tab-a'' (Some []) True) countingPlugin)
          (JObject [(''x'', JNumber 0)])
          \<lparr> config_id = ''doc'', strategy = None, debounce = None, throttle = None,
            paths = None, conflictResolver = None, config_plugins = None,
            enableDevTools = None \<rparr>)
       10"

text \<open>
  The instance \<open>{x: 0}\<close> of tab A, connected, at a moment when posting to the channel
  throws: its \<open>update\<close> at time 300 leaves the patch \<open>pendingLocal\<close> in the offline
  queue. \<open>incomingMessage\<close> then brings the patch of tab B written at time 200.
\<close>

definition xWatcher :: "unit StateMirrorWatcher" where
  "xWatcher =
     connectResumed
       (watch (newWatcher ''tab-a'' (Some []) True) (JObject [(''x'', JNumber 0)]) defaultConfig) 10"

definition pendingWatcher :: "unit StateMirrorWatcher" where
  "pendingWatcher =
     update (xWatcher\<lparr> broadcaster := (broadcaster xWatcher)\<lparr> transportFails := True \<rparr> \<rparr>)
       [replaceOp ''/x'' (JNumber 1)] 300 ''local-1''"

definition pendingLocal :: Patch where
  "pendingLocal =
     \<lparr> patch_id = ''local-1'', timestamp = 300, source = ''tab-a'', target = ''doc'',
       operations = [replaceOp ''/x'' (JNumber 1)], version = 1,
       metadata = JObject [(''applied'', JBool True)] \<rparr>"

definition incomingMessage :: BroadcastMessage where
  "incomingMessage =
     \<lparr> msg_type = ''patch'', msg_data = Some scenarioB_incoming, msg_source = ''tab-b'',
       msg_timestamp = 200 \<rparr>"

section \<open>Theorems\<close>

subsection \<open>C1: the default conflict policy\<close>

text \<open>
  C1. Under the default conflict policy (no resolver passed and none configured)
  \<open>resolveConflict\<close> returns the patch with the later timestamp, and \<open>local\<close> when the
  two timestamps are equal; for the patches of scenario B (local at 100 writing
  \<open>/x = 1\<close>, incoming at 200 writing \<open>/x = 2\<close>) the result is the incoming patch.
\<close>

theorem resolveConflict_default_last_write_wins:
  assumes "conflictResolver cfg = None"
  shows "resolveConflict local incoming cfg None
           = (if timestamp incoming > timestamp local then incoming else local)
         \<and> resolveConflict scenarioB_local scenarioB_incoming cfg None = scenarioB_incoming"
  using assms
  by (simp add: resolveConflict_def lastWriteWinsResolver_def scenarioB_local_def
      scenarioB_incoming_def)

text \<open>
  C1 at scenario B, with a configuration that sets no resolver.
\<close>

theorem resolveConflict_default_witness:
  "conflictResolver defaultConfig = None
   \<and> resolveConflict scenarioB_local scenarioB_incoming defaultConfig None = scenarioB_incoming
   \<and> op_value (hd (operations (resolveConflict scenarioB_local scenarioB_incoming defaultConfig None)))
       = Some (JNumber 2)"
proof -
  have h: "conflictResolver defaultConfig = None"
    by (simp add: defaultConfig_def)
  show ?thesis
    using h resolveConflict_default_last_write_wins [OF h, of scenarioB_local scenarioB_incoming]
    by (simp add: scenarioB_local_def scenarioB_incoming_def)
qed

subsection \<open>C2: conflict check against the pending local patch\<close>

text \<open>
  C2, evaluated on the code. Tab A holds a local patch that writes \<open>/x = 1\<close> at time
  300 and waits in its offline queue; the patch of tab B, written at time 200, writes
  \<open>/x = 2\<close>. The two conflict, and the default policy would keep the local patch. But
  \<open>getCurrentPatch\<close> returns \<open>null\<close>, so the inbound handler compares the incoming
  patch with nothing, emits no \<open>conflict\<close> event and applies the incoming patch:
  \<open>x\<close> becomes 2.
\<close>

theorem pending_patch_never_checked:
  "indexedDB (offlineQueue pendingWatcher) = Some [pendingLocal]
   \<and> state pendingWatcher = JObject [(''x'', JNumber 1)]
   \<and> hasConflicts pendingLocal scenarioB_incoming
   \<and> resolveConflict pendingLocal scenarioB_incoming (config pendingWatcher) None = pendingLocal
   \<and> getCurrentPatch pendingWatcher = None
   \<and> state (onChannelMessage pendingWatcher incomingMessage) = JObject [(''x'', JNumber 2)]
   \<and> filter (\<lambda>ev. eventName ev = ''conflict'') (emitted (onChannelMessage pendingWatcher incomingMessage)) = []
   \<and> last (emitted (onChannelMessage pendingWatcher incomingMessage))
       = PatchApplied scenarioB_incoming (JObject [(''x'', JNumber 2)])"
  by code_simp

subsection \<open>C3: what a resolver returns\<close>




subsection \<open>C4: applying an operation set\<close>











subsection \<open>C5: the cold start\<close>






subsection \<open>C6: the paths filter\<close>







lemma outside_update [simp]: "outside (w\<lparr> state := s, diffEngine := e \<rparr>) = outside w"
  by (simp add: outside_def)




subsection \<open>C7: flushing the offline queue\<close>


lemma quiet_logLine [simp]: "quiet (logLine l q) = quiet q"
  by (simp add: quiet_def logLine_def)









text \<open>
  Two remarks on the callers of \<open>flush\<close>. With a storage adapter \<open>getAll\<close> returns
  no patch, so a flush attempts nothing and leaves the adapter's entries where they are.
\<close>

lemma flush_with_adapter:
  assumes "\<not> flushInProgress q" and "storageAdapter q = Some kvs"
  shows "flush sendFunction w q = (None, w, q\<lparr> isInitialized := True \<rparr>, [])"
proof -
  have "q\<lparr> flushInProgress := True, isInitialized := True, flushInProgress := False \<rparr>
          = q\<lparr> isInitialized := True \<rparr>"
    using assms(1) by simp
  moreover have "isInitialized q \<Longrightarrow> q\<lparr> isInitialized := True \<rparr> = q"
    by simp
  ultimately show ?thesis
    using assms
    by (cases "isInitialized q")
      (simp_all add: flush_def getAll_def ensureInitialized_def initialize_def)
qed

text \<open>
  The coordinator's \<open>flushQueue\<close> passes \<open>broadcastPatch\<close> as the send function,
  which catches the exception of the transport, writes the patch to the queue again
  and returns: \<open>flush\<close> sees a send that returned and removes the patch. At the
  instance whose channel throws, the queued patch is gone after \<open>flushQueue\<close> and was
  not posted.
\<close>

lemma flushQueue_drops_unsent:
  "indexedDB (offlineQueue pendingWatcher) = Some [pendingLocal]
   \<and> posted (broadcaster pendingWatcher) = []
   \<and> fst (flushQueue pendingWatcher 400) = None
   \<and> indexedDB (offlineQueue (snd (flushQueue pendingWatcher 400))) = Some []
   \<and> posted (broadcaster (snd (flushQueue pendingWatcher 400))) = []"
  by code_simp

subsection \<open>C8: no flush inside a flush\<close>



lemma logLine_busy [simp]: "flushInProgress (logLine l q) = flushInProgress q"
  by (simp add: logLine_def)





subsection \<open>C9: self-echo suppression\<close>

lemma funpow_fixed: "f x = x \<Longrightarrow> (f ^^ n) x = x"
  by (induction n) simp_all

text \<open>
  C9. A patch whose \<open>source\<close> is the instance's own source id is dropped by
  \<open>handlePatch\<close> at once: the instance after the call is the instance before it, so
  no hook ran (no plugin state and no event changed), nothing was resolved and nothing
  was applied. The same holds for a message that carries such a patch, whatever its
  type and source; and the broadcaster calls no handler for a message whose \<open>source\<close>
  is its own id.
\<close>

theorem own_patches_discarded:
  assumes "source patch = sourceId w"
  shows "handlePatch w patch = w
         \<and> handleMessage w (message\<lparr> msg_data := Some patch \<rparr>) = w
         \<and> onChannelMessage w (message\<lparr> msg_data := Some patch \<rparr>) = w
         \<and> bc_handleMessage b (message\<lparr> msg_source := bc_sourceId b \<rparr>) = 0"
proof -
  have hp: "handlePatch w patch = w"
    using assms by (simp add: handlePatch_def)
  have hm: "handleMessage w (message\<lparr> msg_data := Some patch \<rparr>) = w"
    using hp by (simp add: handleMessage_def)
  have oc: "onChannelMessage w (message\<lparr> msg_data := Some patch \<rparr>) = w"
    unfolding onChannelMessage_def using hm by (rule funpow_fixed)
  have bh: "bc_handleMessage b (message\<lparr> msg_source := bc_sourceId b \<rparr>) = 0"
    by (simp add: bc_handleMessage_def)
  show ?thesis
    using hp hm oc bh by simp
qed

lemma tabA_sourceId: "sourceId tabA = ''tab-a''"
  by code_simp

text \<open>
  C9 at the instance with the counting plugin: its own patch leaves the counter at 0,
  the patch of another tab moves it to 1.
\<close>

theorem own_patches_discarded_witness:
  "source (scenarioB_incoming\<lparr> source := ''tab-a'' \<rparr>) = sourceId tabA
   \<and> handlePatch tabA (scenarioB_incoming\<lparr> source := ''tab-a'' \<rparr>) = tabA
   \<and> map pluginState (plugins (handlePatch tabA scenarioB_incoming)) = [1]
   \<and> map pluginState (plugins tabA) = [0]"
proof -
  have h: "source (scenarioB_incoming\<lparr> source := ''tab-a'' \<rparr>) = sourceId tabA"
    by (simp add: tabA_sourceId)
  have f: "map pluginState (plugins (handlePatch tabA scenarioB_incoming)) = [1]"
    by code_simp
  have g: "map pluginState (plugins tabA) = [0]"
    by code_simp
  show ?thesis
    using h f g own_patches_discarded [OF h] by simp
qed

subsection \<open>C10: deep equality\<close>

text \<open>
  C10, evaluated on the code. \<open>isEqual\<close> takes two \<open>Date\<close> objects a day apart for
  equal (a \<open>Date\<close> has no own enumerable key, so the loop over the keys compares
  nothing), and takes \<open>NaN\<close> for different from itself.
\<close>

theorem isEqual_dates_nan:
  "isEqual (JDate 0) (JDate 86400000) \<and> \<not> isEqual JNaN JNaN"
  by code_simp

end
